theory Spec2Isabelle
  imports Main
begin

section \<open>Diagnostics and the abort check of \<^verbatim>\<open>src/index.ts\<close>\<close>

text \<open>
  A \<^verbatim>\<open>ts.Diagnostic\<close> as far as \<^verbatim>\<open>formatDiagnostics\<close> reads it: its category, the
  file anchor (the file name with the zero-based line and character that
  \<^verbatim>\<open>d.file.getLineAndCharacterOfPosition(d.start)\<close> returns; \<open>None\<close> when \<^verbatim>\<open>d.file\<close> is
  absent) and the text that \<^verbatim>\<open>ts.flattenDiagnosticMessageText\<close> gives for the message.
  The categories are those of the engine's enumeration \<^verbatim>\<open>ts.DiagnosticCategory\<close>.
\<close>

datatype DiagnosticCategory = Warning | Error | Message

record diag_file =
  file_fileName :: string
  file_line :: nat
  file_character :: nat

record diagnostic =
  diag_category :: DiagnosticCategory
  diag_file :: "diag_file option"
  diag_messageText :: string

text \<open>
  How a run ends when it does not return: \<^verbatim>\<open>process.exit(code)\<close> after a text was written
  to the error stream, or an exception that nothing in \<^verbatim>\<open>main\<close> catches (a
  \<^verbatim>\<open>TypeError\<close> of the language, an error of the file system).
\<close>

datatype abort = ProcessExit nat string | TypeError | FsError

text \<open>The reverse mapping \<^verbatim>\<open>ts.DiagnosticCategory[d.category]\<close> of the enumeration.\<close>

fun category_name :: "DiagnosticCategory \<Rightarrow> string" where
  "category_name Warning = ''Warning''"
| "category_name Error = ''Error''"
| "category_name Message = ''Message''"

text \<open>Decimal digits of a number, as string concatenation with a number gives them.\<close>

definition digit :: "nat \<Rightarrow> char" where
  "digit k = ''0123456789'' ! k"

fun decimal :: "nat \<Rightarrow> string" where
  "decimal n = (if 10 \<le> n then decimal (n div 10) else []) @ [digit (n mod 10)]"

text \<open>\<^verbatim>\<open>Array.prototype.join\<close> on strings.\<close>

fun join :: "string \<Rightarrow> string list \<Rightarrow> string" where
  "join sep [] = []"
| "join sep [x] = x"
| "join sep (x # y # ys) = x @ sep @ join sep (y # ys)"

text \<open>
  The body of the callback that \<^verbatim>\<open>formatDiagnostics\<close> maps over the list. An entry of the
  list that is \<^verbatim>\<open>undefined\<close> (\<open>None\<close>) makes \<^verbatim>\<open>d.category\<close> raise a \<^verbatim>\<open>TypeError\<close>.
\<close>

fun format_diagnostic :: "diagnostic option \<Rightarrow> abort + string" where
  "format_diagnostic None = Inl TypeError"
| "format_diagnostic (Some d) =
     Inr (category_name (diag_category d)
          @ (case diag_file d of
               None \<Rightarrow> []
             | Some f \<Rightarrow> '' at '' @ file_fileName f @ '':''
                 @ decimal (file_line f + 1) @ '':''
                 @ decimal (file_character f + 1) @ '':'')
          @ '' '' @ diag_messageText d)"

text \<open>\<^verbatim>\<open>diags.map(...)\<close>: the first entry whose callback raises ends the map.\<close>

fun map_format :: "diagnostic option list \<Rightarrow> abort + string list" where
  "map_format [] = Inr []"
| "map_format (d # ds) =
     (case format_diagnostic d of
        Inl e \<Rightarrow> Inl e
      | Inr s \<Rightarrow> (case map_format ds of Inl e \<Rightarrow> Inl e | Inr ss \<Rightarrow> Inr (s # ss)))"

definition formatDiagnostics :: "diagnostic option list \<Rightarrow> abort + string" where
  "formatDiagnostics diags =
     (case map_format diags of Inl e \<Rightarrow> Inl e | Inr ss \<Rightarrow> Inr (join [CHR 0x0A] ss))"

text \<open>
  \<^verbatim>\<open>check\<close> (lines 59-64). The argument may be \<^verbatim>\<open>undefined\<close> or \<^verbatim>\<open>null\<close> (\<open>None\<close>), and so
  may its entries: \<^verbatim>\<open>main\<close> calls \<^verbatim>\<open>check([error])\<close> with an \<^verbatim>\<open>error\<close> that is absent when
  the descriptor was read. The condition is the truthiness chain
  \<^verbatim>\<open>diagnostics && diagnostics.length && diagnostics[0]\<close>. When it holds the formatted
  list goes to the error stream behind \<^verbatim>\<open>FATAL\<close> and the process exits with code 1;
  otherwise \<^verbatim>\<open>check\<close> returns.
\<close>

definition check :: "diagnostic option list option \<Rightarrow> abort + unit" where
  "check diagnostics =
     (case diagnostics of
        None \<Rightarrow> Inr ()
      | Some ds \<Rightarrow>
          if length ds \<noteq> 0 \<and> ds ! 0 \<noteq> None then
            (case formatDiagnostics ds of
               Inl e \<Rightarrow> Inl e
             | Inr text \<Rightarrow> Inl (ProcessExit 1 (''FATAL '' @ text)))
          else Inr ())"

text \<open>The run is aborted by a step when the step does not return.\<close>

definition aborts :: "abort + 'a \<Rightarrow> bool" where
  "aborts r = (case r of Inl e \<Rightarrow> True | Inr v \<Rightarrow> False)"

text \<open>
  The lists the engine hands to \<^verbatim>\<open>check\<close> hold diagnostics only; \<open>engine_list\<close> is such a
  list as \<^verbatim>\<open>check\<close> receives it.
\<close>

definition engine_list :: "diagnostic list \<Rightarrow> diagnostic option list option" where
  "engine_list ds = Some (map Some ds)"

text \<open>The spec's words for the abort condition: a diagnostic of fatal severity is pending.\<close>

definition contains_fatal :: "diagnostic list \<Rightarrow> bool" where
  "contains_fatal ds = list_ex (\<lambda>d. diag_category d = Error) ds"

section \<open>Extensions\<close>

text \<open>
  The \<^verbatim>\<open>Extension\<close> interface (lines 9-42). Each of the four hooks is optional: \<open>None\<close> is
  a hook the extension does not provide. \<open>'p\<close> is the engine's program and \<open>'sf\<close> its
  parsed source file; the host's \<^verbatim>\<open>program\<close> field and the base host's source file may
  both be \<^verbatim>\<open>undefined\<close> when a hook receives them, hence the options.
  A \<^verbatim>\<open>codegen\<close> hook is given by the calls it makes to the write callback it receives,
  in order, each a file path and a content. A \<^verbatim>\<open>check\<close> hook takes no argument and its
  return value is not read, so it is given by whether it returns or ends the run.
  Only \<^verbatim>\<open>genDir\<close> of the configuration bag is read by this code.
\<close>

record ext_options =
  genDir :: "string option"

record preProcess_result =
  result_content :: string
  result_diagnostics :: "diagnostic list"

record ('p, 'sf) extension =
  ext_options :: ext_options
  preProcess :: "('p option \<Rightarrow> 'sf option \<Rightarrow> preProcess_result) option"
  postProcess :: "(string \<Rightarrow> string \<Rightarrow> string) option"
  codegen :: "(string \<times> string) list option"
  check_hook :: "(abort + unit) option"
  ext_name :: string
  ext_loadPath :: string

datatype extension_point = PreProcess | PostProcess | Codegen | Check

text \<open>
  \<^verbatim>\<open>enabled(extensionPoint)\<close> (lines 70-81): \<^verbatim>\<open>!!ext[extensionPoint]\<close>, for the four
  property names the file passes. The debug line it prints is not modelled.
\<close>

fun enabled :: "extension_point \<Rightarrow> ('p, 'sf) extension \<Rightarrow> bool" where
  "enabled PreProcess ext = (preProcess ext \<noteq> None)"
| "enabled PostProcess ext = (postProcess ext \<noteq> None)"
| "enabled Codegen ext = (codegen ext \<noteq> None)"
| "enabled Check ext = (check_hook ext \<noteq> None)"

section \<open>The base host and the Delegating Host\<close>

text \<open>
  A host object: the members of \<^verbatim>\<open>ts.CompilerHost\<close> that \<^verbatim>\<open>DelegatingHost\<close> forwards.
  A member is a function and is called on an object, which it may read as \<^verbatim>\<open>this\<close>: the
  first argument of every member is that receiver, and \<open>receiver\<close> is the host itself as
  its members read it, of a type \<open>'r\<close> (its own fields, say). So the call
  \<^verbatim>\<open>host.readFile(f)\<close> is \<open>readFile host (receiver host) f\<close>. The members that the
  interface declares optional (\<^verbatim>\<open>getCancellationToken\<close>, \<^verbatim>\<open>getDefaultLibLocation\<close>,
  \<^verbatim>\<open>resolveModuleNames\<close>, \<^verbatim>\<open>trace\<close>, \<^verbatim>\<open>directoryExists\<close>) may be absent (\<open>None\<close>), and
  calling an absent member raises a \<^verbatim>\<open>TypeError\<close>. The two output operations
  (\<^verbatim>\<open>writeFile\<close> and \<^verbatim>\<open>trace\<close>) transform the world \<open>'w\<close> outside the process. \<open>'cb\<close> is
  the type of the optional \<^verbatim>\<open>onError\<close> callbacks, which this code only passes on. A
  language version (\<^verbatim>\<open>ts.ScriptTarget\<close>) and a cancellation token are numbers. The
  resolved options of the engine are read for \<^verbatim>\<open>outDir\<close> only.
\<close>

record compiler_options =
  options_outDir :: "string option"

record resolved_module =
  resolvedFileName :: string
  isExternalLibraryImport :: bool

record ('sf, 'cb, 'w, 'r) compiler_host =
  receiver :: 'r
  getSourceFile :: "'r \<Rightarrow> string \<Rightarrow> nat \<Rightarrow> 'cb option \<Rightarrow> 'sf option"
  getCancellationToken :: "('r \<Rightarrow> unit \<Rightarrow> abort + nat) option"
  getDefaultLibFileName :: "'r \<Rightarrow> compiler_options \<Rightarrow> string"
  getDefaultLibLocation :: "('r \<Rightarrow> unit \<Rightarrow> abort + string) option"
  writeFile :: "'r \<Rightarrow> string \<Rightarrow> string \<Rightarrow> bool \<Rightarrow> 'cb option \<Rightarrow> 'w \<Rightarrow> 'w"
  getCurrentDirectory :: "'r \<Rightarrow> unit \<Rightarrow> string"
  getCanonicalFileName :: "'r \<Rightarrow> string \<Rightarrow> string"
  useCaseSensitiveFileNames :: "'r \<Rightarrow> unit \<Rightarrow> bool"
  getNewLine :: "'r \<Rightarrow> unit \<Rightarrow> string"
  resolveModuleNames :: "('r \<Rightarrow> string list \<Rightarrow> string \<Rightarrow> abort + resolved_module list) option"
  fileExists :: "'r \<Rightarrow> string \<Rightarrow> bool"
  readFile :: "'r \<Rightarrow> string \<Rightarrow> string option"
  trace :: "('r \<Rightarrow> string \<Rightarrow> 'w \<Rightarrow> (abort + unit) \<times> 'w) option"
  directoryExists :: "('r \<Rightarrow> string \<Rightarrow> abort + bool) option"

text \<open>The calls \<^verbatim>\<open>host.m(...)\<close> of the five optional members.\<close>

definition call_getCancellationToken ::
  "('sf, 'cb, 'w, 'r) compiler_host \<Rightarrow> unit \<Rightarrow> abort + nat" where
  "call_getCancellationToken host u =
     (case getCancellationToken host of None \<Rightarrow> Inl TypeError | Some m \<Rightarrow> m (receiver host) u)"

definition call_getDefaultLibLocation ::
  "('sf, 'cb, 'w, 'r) compiler_host \<Rightarrow> unit \<Rightarrow> abort + string" where
  "call_getDefaultLibLocation host u =
     (case getDefaultLibLocation host of None \<Rightarrow> Inl TypeError | Some m \<Rightarrow> m (receiver host) u)"

definition call_resolveModuleNames ::
  "('sf, 'cb, 'w, 'r) compiler_host \<Rightarrow> string list \<Rightarrow> string \<Rightarrow> abort + resolved_module list" where
  "call_resolveModuleNames host moduleNames containingFile =
     (case resolveModuleNames host of
        None \<Rightarrow> Inl TypeError
      | Some m \<Rightarrow> m (receiver host) moduleNames containingFile)"

definition call_trace ::
  "('sf, 'cb, 'w, 'r) compiler_host \<Rightarrow> string \<Rightarrow> 'w \<Rightarrow> (abort + unit) \<times> 'w" where
  "call_trace host s w =
     (case trace host of None \<Rightarrow> (Inl TypeError, w) | Some m \<Rightarrow> m (receiver host) s w)"

definition call_directoryExists ::
  "('sf, 'cb, 'w, 'r) compiler_host \<Rightarrow> string \<Rightarrow> abort + bool" where
  "call_directoryExists host directoryName =
     (case directoryExists host of
        None \<Rightarrow> Inl TypeError
      | Some m \<Rightarrow> m (receiver host) directoryName)"

text \<open>
  \<^verbatim>\<open>DelegatingHost\<close> (the unnamed source file, lines 7-38), for the new object \<open>self\<close> as
  a receiver. Thirteen members are arrow functions: whatever they are called on, they
  call the same member on \<^verbatim>\<open>this.delegate\<close>, and each of them is defined whether or not
  the delegate has the member. \<^verbatim>\<open>writeFile\<close> (line 17) is the delegate's function
  itself, so a call on the wrapper runs it with the wrapper as \<^verbatim>\<open>this\<close>.
\<close>

definition DelegatingHost ::
  "'r \<Rightarrow> ('sf, 'cb, 'w, 'r) compiler_host \<Rightarrow> ('sf, 'cb, 'w, 'r) compiler_host" where
  "DelegatingHost self delegate =
     \<lparr> receiver = self,
       getSourceFile = (\<lambda>this fileName languageVersion onError.
         getSourceFile delegate (receiver delegate) fileName languageVersion onError),
       getCancellationToken = Some (\<lambda>this u. call_getCancellationToken delegate u),
       getDefaultLibFileName = (\<lambda>this options.
         getDefaultLibFileName delegate (receiver delegate) options),
       getDefaultLibLocation = Some (\<lambda>this u. call_getDefaultLibLocation delegate u),
       writeFile = writeFile delegate,
       getCurrentDirectory = (\<lambda>this u. getCurrentDirectory delegate (receiver delegate) u),
       getCanonicalFileName = (\<lambda>this fileName.
         getCanonicalFileName delegate (receiver delegate) fileName),
       useCaseSensitiveFileNames = (\<lambda>this u.
         useCaseSensitiveFileNames delegate (receiver delegate) u),
       getNewLine = (\<lambda>this u. getNewLine delegate (receiver delegate) u),
       resolveModuleNames = Some (\<lambda>this moduleNames containingFile.
         call_resolveModuleNames delegate moduleNames containingFile),
       fileExists = (\<lambda>this fileName. fileExists delegate (receiver delegate) fileName),
       readFile = (\<lambda>this fileName. readFile delegate (receiver delegate) fileName),
       trace = Some (\<lambda>this s. call_trace delegate s),
       directoryExists = Some (\<lambda>this directoryName.
         call_directoryExists delegate directoryName) \<rparr>"

section \<open>The Extension-Aware Host\<close>

text \<open>
  The two functions of the engine that \<^verbatim>\<open>ExtCompilerHost\<close> calls.
  \<open>createSourceFile\<close> is \<^verbatim>\<open>ts.createSourceFile(fileName, text, languageVersion,
  setParentNodes)\<close> on a text, and \<open>resolveModuleName\<close> is
  \<^verbatim>\<open>ts.resolveModuleName(moduleName, containingFile, options, host)\<close>, of whose result
  only the \<^verbatim>\<open>resolvedModule\<close> member is read (\<open>None\<close> when it is absent).
\<close>

record ('sf, 'cb, 'w, 'r) ts_engine =
  createSourceFile :: "string \<Rightarrow> string \<Rightarrow> nat \<Rightarrow> bool \<Rightarrow> 'sf"
  resolveModuleName ::
    "string \<Rightarrow> string \<Rightarrow> compiler_options \<Rightarrow> ('sf, 'cb, 'w, 'r) compiler_host
       \<Rightarrow> resolved_module option"

text \<open>
  \<^verbatim>\<open>ts.createSourceFile\<close> as \<^verbatim>\<open>getSourceFile\<close> calls it, with a text that is
  \<^verbatim>\<open>undefined\<close> when \<^verbatim>\<open>readFile\<close> could not read the file: on \<^verbatim>\<open>undefined\<close> the engine
  raises a \<^verbatim>\<open>TypeError\<close>.
\<close>

definition ts_createSourceFile ::
  "('sf, 'cb, 'w, 'r) ts_engine \<Rightarrow> string \<Rightarrow> string option \<Rightarrow> nat \<Rightarrow> bool \<Rightarrow> abort + 'sf" where
  "ts_createSourceFile E fileName text languageVersion setParentNodes =
     (case text of
        None \<Rightarrow> Inl TypeError
      | Some sourceText \<Rightarrow> Inr (createSourceFile E fileName sourceText languageVersion setParentNodes))"

text \<open>
  An \<^verbatim>\<open>ExtCompilerHost\<close> instance (lines 83-136): the instance as a receiver, the
  delegate of the superclass, the two private constructor parameters, and the three
  fields it mutates.
\<close>

record ('p, 'sf, 'cb, 'w, 'r) ExtCompilerHost =
  host_self :: 'r
  host_delegate :: "('sf, 'cb, 'w, 'r) compiler_host"
  host_options :: compiler_options
  host_extensions :: "('p, 'sf) extension list"
  host_diagnostics :: "diagnostic list"
  host_program :: "'p option"
  reverseMap :: "string \<rightharpoonup> string"

text \<open>The constructor with the field initialisers of the class.\<close>

definition new_ExtCompilerHost ::
  "'r \<Rightarrow> ('sf, 'cb, 'w, 'r) compiler_host \<Rightarrow> compiler_options \<Rightarrow> ('p, 'sf) extension list
     \<Rightarrow> ('p, 'sf, 'cb, 'w, 'r) ExtCompilerHost" where
  "new_ExtCompilerHost self delegate options extensions =
     \<lparr> host_self = self, host_delegate = delegate, host_options = options,
       host_extensions = extensions, host_diagnostics = [], host_program = None,
       reverseMap = Map.empty \<rparr>"

text \<open>The members the instance inherits from \<^verbatim>\<open>DelegatingHost\<close>.\<close>

definition inherited ::
  "('p, 'sf, 'cb, 'w, 'r) ExtCompilerHost \<Rightarrow> ('sf, 'cb, 'w, 'r) compiler_host" where
  "inherited h = DelegatingHost (host_self h) (host_delegate h)"

text \<open>
  \<^verbatim>\<open>resolveModuleNames\<close> (lines 98-109): the \<^verbatim>\<open>forEach\<close> over the requested names, on the
  pair of the local \<^verbatim>\<open>result\<close> array and the reverse map.
\<close>

fun resolveModuleNames_forEach ::
  "('sf, 'cb, 'w, 'r) ts_engine \<Rightarrow> compiler_options \<Rightarrow> ('sf, 'cb, 'w, 'r) compiler_host \<Rightarrow> string
     \<Rightarrow> string list \<Rightarrow> resolved_module list \<times> (string \<rightharpoonup> string)
     \<Rightarrow> resolved_module list \<times> (string \<rightharpoonup> string)" where
  "resolveModuleNames_forEach E options delegate containingFile [] (result, rmap) =
     (result, rmap)"
| "resolveModuleNames_forEach E options delegate containingFile (moduleName # rest) (result, rmap) =
     (case resolveModuleName E moduleName containingFile options delegate of
        Some resolvedModule \<Rightarrow>
          resolveModuleNames_forEach E options delegate containingFile rest
            (result @ [resolvedModule], rmap(resolvedFileName resolvedModule \<mapsto> moduleName))
      | None \<Rightarrow>
          resolveModuleNames_forEach E options delegate containingFile rest (result, rmap))"

definition ExtCompilerHost_resolveModuleNames ::
  "('sf, 'cb, 'w, 'r) ts_engine \<Rightarrow> ('p, 'sf, 'cb, 'w, 'r) ExtCompilerHost \<Rightarrow> string list \<Rightarrow> string
     \<Rightarrow> resolved_module list \<times> ('p, 'sf, 'cb, 'w, 'r) ExtCompilerHost" where
  "ExtCompilerHost_resolveModuleNames E h moduleNames containingFile =
     (case resolveModuleNames_forEach E (host_options h) (host_delegate h) containingFile
             moduleNames ([], reverseMap h) of
        (result, rmap) \<Rightarrow> (result, h\<lparr>reverseMap := rmap\<rparr>))"

text \<open>The test \<^verbatim>\<open>/\.d\.ts$/.test(fileName)\<close>: the name ends in \<^verbatim>\<open>.d.ts\<close>.\<close>

definition isDefinitions :: "string \<Rightarrow> bool" where
  "isDefinitions fileName =
     (5 \<le> length fileName \<and> drop (length fileName - 5) fileName = ''.d.ts'')"

text \<open>
  The \<^verbatim>\<open>forEach\<close> of \<^verbatim>\<open>getSourceFile\<close> (lines 119-124) over the extensions that the filter
  kept, on the pair of the local \<^verbatim>\<open>content\<close> and the host's \<^verbatim>\<open>diagnostics\<close>. Every call
  receives the host's \<^verbatim>\<open>program\<close> field and the base host's source file. The filter
  keeps only extensions whose hook is present, so \<open>the\<close> is applied to \<open>Some\<close> only.
\<close>

fun preProcess_forEach ::
  "'p option \<Rightarrow> 'sf option \<Rightarrow> ('p, 'sf) extension list \<Rightarrow> string option \<times> diagnostic list
     \<Rightarrow> string option \<times> diagnostic list" where
  "preProcess_forEach program sourceFile [] (content, diagnostics) = (content, diagnostics)"
| "preProcess_forEach program sourceFile (ext # rest) (content, diagnostics) =
     (let result = the (preProcess ext) program sourceFile in
      preProcess_forEach program sourceFile rest
        (Some (result_content result), diagnostics @ result_diagnostics result))"

text \<open>
  \<^verbatim>\<open>getSourceFile\<close> (lines 111-126). The delegate's members are called on the delegate;
  \<^verbatim>\<open>this.readFile\<close> is the member inherited from \<^verbatim>\<open>DelegatingHost\<close>, called on the
  instance. The result is the source file returned, or the exception of
  \<^verbatim>\<open>ts.createSourceFile\<close>, with the host as the call leaves it.
\<close>

definition ExtCompilerHost_getSourceFile ::
  "('sf, 'cb, 'w, 'r) ts_engine \<Rightarrow> ('p, 'sf, 'cb, 'w, 'r) ExtCompilerHost \<Rightarrow> string \<Rightarrow> nat
     \<Rightarrow> 'cb option \<Rightarrow> (abort + 'sf option) \<times> ('p, 'sf, 'cb, 'w, 'r) ExtCompilerHost" where
  "ExtCompilerHost_getSourceFile E h fileName languageVersion onError =
     (let sourceFile = getSourceFile (host_delegate h) (receiver (host_delegate h))
            fileName languageVersion onError in
      if isDefinitions fileName then (Inr sourceFile, h)
      else
        (case preProcess_forEach (host_program h) sourceFile
                (filter (enabled PreProcess) (host_extensions h))
                (readFile (inherited h) (host_self h) fileName, host_diagnostics h) of
           (content, diagnostics) \<Rightarrow>
             (case ts_createSourceFile E fileName content languageVersion True of
                Inl e \<Rightarrow> (Inl e, h\<lparr>host_diagnostics := diagnostics\<rparr>)
              | Inr parsed \<Rightarrow> (Inr (Some parsed), h\<lparr>host_diagnostics := diagnostics\<rparr>))))"

text \<open>The \<^verbatim>\<open>forEach\<close> of \<^verbatim>\<open>writeFile\<close> (lines 131-133) on the parameter \<^verbatim>\<open>content\<close>.\<close>

fun postProcess_forEach :: "string \<Rightarrow> ('p, 'sf) extension list \<Rightarrow> string \<Rightarrow> string" where
  "postProcess_forEach fileName [] content = content"
| "postProcess_forEach fileName (ext # rest) content =
     postProcess_forEach fileName rest (the (postProcess ext) fileName content)"

text \<open>
  \<^verbatim>\<open>writeFile\<close> (lines 128-135): the effect on the world; the host is not changed. The
  delegate's \<^verbatim>\<open>writeFile\<close> is called on the delegate.
\<close>

definition ExtCompilerHost_writeFile ::
  "('p, 'sf, 'cb, 'w, 'r) ExtCompilerHost \<Rightarrow> string \<Rightarrow> string \<Rightarrow> bool \<Rightarrow> 'cb option \<Rightarrow> 'w \<Rightarrow> 'w" where
  "ExtCompilerHost_writeFile h fileName content writeByteOrderMark onError =
     writeFile (host_delegate h) (receiver (host_delegate h)) fileName
       (postProcess_forEach fileName (filter (enabled PostProcess) (host_extensions h)) content)
       writeByteOrderMark onError"

section \<open>The orchestrator\<close>

text \<open>
  What \<^verbatim>\<open>main\<close> (lines 156-229) calls outside this repository, taken as parameters. The
  descriptor as \<^verbatim>\<open>ts.readConfigFile\<close> returns it is its \<^verbatim>\<open>extensions\<close> block (the
  identifiers in key order, each with its configuration bag; \<open>None\<close> when the block is
  absent) and the rest, which is what the engine's option parser sees after
  \<^verbatim>\<open>delete config.extensions\<close>.
\<close>

record 'j config =
  cfg_extensions :: "(string \<times> ext_options) list option"
  cfg_rest :: 'j

record parsed_config =
  parsed_options :: compiler_options
  parsed_fileNames :: "string list"
  parsed_errors :: "diagnostic list"

record emit_result =
  emit_diagnostics :: "diagnostic list"
  emitSkipped :: bool

text \<open>
  The engine builds the program with the host it is given: while \<^verbatim>\<open>ts.createProgram\<close>
  runs it asks the host for source files and for module names. These calls are the
  requests; the program it returns may depend on the answers.
\<close>

datatype 'cb host_request =
    GetSourceFile string nat "'cb option"
  | ResolveModuleNames "string list" string

datatype 'sf host_answer =
    SourceFileAnswer "'sf option"
  | ModulesAnswer "resolved_module list"

text \<open>
  \<^item> \<open>lstat_isDirectory\<close> is \<^verbatim>\<open>fs.lstatSync(p).isDirectory()\<close>, \<open>None\<close> when it raises;
  \<^item> \<open>join_paths\<close> is \<^verbatim>\<open>path.join\<close> on two strings and \<open>path_dirname\<close> is \<^verbatim>\<open>path.dirname\<close>;
  \<^item> \<open>mkdirp_sync\<close> and \<open>writeFileSync\<close> are the two writes of the codegen callback;
  \<^item> \<open>load_module\<close> is what the \<^verbatim>\<open>try\<close> block of \<^verbatim>\<open>load\<close> obtains for an identifier:
    the object that is the default export of the module, given by its identity and by
    its members as the module exports them, and the resolved path of the module;
    \<open>None\<close> when \<^verbatim>\<open>require\<close> raises. Identifiers of one module obtain one object;
  \<^item> \<open>createProgram_requests\<close> are the calls \<^verbatim>\<open>ts.createProgram\<close> makes to the host and
    \<open>createProgram\<close> is the program it returns for the answers;
  \<^item> \<open>getPreEmitDiagnostics\<close> takes the optional source file of
    \<^verbatim>\<open>ts.getPreEmitDiagnostics(program, sf)\<close>;
  \<^item> \<open>emit_writes\<close> are the calls \<^verbatim>\<open>program.emit(sf)\<close> makes to the host's \<^verbatim>\<open>writeFile\<close>,
    one per emitted artifact.
\<close>

record ('p, 'sf, 'cb, 'w, 'r, 'j) environment =
  lstat_isDirectory :: "string \<Rightarrow> bool option"
  join_paths :: "string \<Rightarrow> string \<Rightarrow> string"
  path_dirname :: "string \<Rightarrow> string"
  mkdirp_sync :: "string \<Rightarrow> 'w \<Rightarrow> 'w"
  writeFileSync :: "string \<Rightarrow> string \<Rightarrow> 'w \<Rightarrow> 'w"
  load_module :: "string \<Rightarrow> (nat \<times> ('p, 'sf) extension \<times> string) option"
  readConfigFile :: "string \<Rightarrow> 'j config option \<times> diagnostic option"
  parseJsonConfigFileContent :: "'j \<Rightarrow> string \<Rightarrow> parsed_config"
  createCompilerHost :: "compiler_options \<Rightarrow> bool \<Rightarrow> ('sf, 'cb, 'w, 'r) compiler_host"
  createProgram_requests :: "string list \<Rightarrow> compiler_options \<Rightarrow> 'cb host_request list"
  createProgram :: "string list \<Rightarrow> compiler_options \<Rightarrow> 'sf host_answer list \<Rightarrow> 'p"
  getOptionsDiagnostics :: "'p \<Rightarrow> diagnostic list"
  getGlobalDiagnostics :: "'p \<Rightarrow> diagnostic list"
  getSourceFiles :: "'p \<Rightarrow> 'sf list"
  getPreEmitDiagnostics :: "'p \<Rightarrow> 'sf option \<Rightarrow> diagnostic list"
  emit :: "'p \<Rightarrow> 'sf \<Rightarrow> emit_result"
  emit_writes :: "'p \<Rightarrow> 'sf \<Rightarrow> (string \<times> string \<times> bool \<times> 'cb option) list"

text \<open>
  \<^verbatim>\<open>load\<close> (lines 138-154). The loop assigns the bag, the name and the load path to the
  exported object itself and pushes the object, so its state is the pair of the
  \<^verbatim>\<open>result\<close> array, as identities, and the objects assigned so far. An identifier whose
  module does not load is reported and left out. An object that two identifiers obtain
  stands twice in the result, with the bag and the name assigned last.
\<close>

fun load_loop ::
  "('p, 'sf, 'cb, 'w, 'r, 'j) environment \<Rightarrow> (string \<times> ext_options) list
     \<Rightarrow> nat list \<times> (nat \<rightharpoonup> ('p, 'sf) extension)
     \<Rightarrow> nat list \<times> (nat \<rightharpoonup> ('p, 'sf) extension)" where
  "load_loop X [] (result, objects) = (result, objects)"
| "load_loop X ((extension, bag) # rest) (result, objects) =
     (case load_module X extension of
        None \<Rightarrow> load_loop X rest (result, objects)
      | Some (identity, exported, path) \<Rightarrow>
          (let ext = (case objects identity of None \<Rightarrow> exported | Some assigned \<Rightarrow> assigned)
           in load_loop X rest
                (result @ [identity],
                 objects(identity \<mapsto>
                   ext\<lparr>ext_options := bag, ext_name := extension, ext_loadPath := path\<rparr>))))"

text \<open>The extensions \<^verbatim>\<open>load\<close> returns, as \<^verbatim>\<open>main\<close> reads them afterwards.\<close>

definition load ::
  "('p, 'sf, 'cb, 'w, 'r, 'j) environment \<Rightarrow> (string \<times> ext_options) list option
     \<Rightarrow> ('p, 'sf) extension list" where
  "load X extensionsCfg =
     (case extensionsCfg of
        None \<Rightarrow> []
      | Some cfg \<Rightarrow>
          (case load_loop X cfg ([], Map.empty) of
             (result, objects) \<Rightarrow> map (\<lambda>identity. the (objects identity)) result))"

text \<open>
  \<^verbatim>\<open>path.join\<close> as the platform defines it on arguments that may not be strings: an
  argument that is \<^verbatim>\<open>undefined\<close> raises a \<^verbatim>\<open>TypeError\<close>.
\<close>

definition path_join ::
  "('p, 'sf, 'cb, 'w, 'r, 'j) environment \<Rightarrow> string option \<Rightarrow> string option \<Rightarrow> abort + string" where
  "path_join X a b =
     (case a of
        None \<Rightarrow> Inl TypeError
      | Some x \<Rightarrow> (case b of None \<Rightarrow> Inl TypeError | Some y \<Rightarrow> Inr (join_paths X x y)))"

text \<open>Truthiness of a value that is a string or \<^verbatim>\<open>undefined\<close>: the empty string is falsy.\<close>

definition truthy :: "string option \<Rightarrow> bool" where
  "truthy s = (case s of None \<Rightarrow> False | Some x \<Rightarrow> x \<noteq> [])"

text \<open>
  The write callback that \<^verbatim>\<open>main\<close> hands to a \<^verbatim>\<open>codegen\<close> hook (lines 191-202), for the
  extension \<open>ext\<close>. \<^verbatim>\<open>parsed.options.outDir\<close> may be \<^verbatim>\<open>undefined\<close>. The two writes are
  taken to succeed. The debug line is not modelled.
\<close>

definition codegen_writeFile ::
  "('p, 'sf, 'cb, 'w, 'r, 'j) environment \<Rightarrow> string \<Rightarrow> compiler_options \<Rightarrow> ('p, 'sf) extension
     \<Rightarrow> string \<Rightarrow> string \<Rightarrow> 'w \<Rightarrow> (abort + unit) \<times> 'w" where
  "codegen_writeFile X basePath options ext filename source w =
     (let outDir =
        (if truthy (genDir (ext_options ext))
         then (case path_join X (Some basePath) (genDir (ext_options ext)) of
                 Inl e \<Rightarrow> Inl e
               | Inr joined \<Rightarrow> Inr (Some joined))
         else Inr (options_outDir options))
      in case outDir of
           Inl e \<Rightarrow> (Inl e, w)
         | Inr dir \<Rightarrow>
             (case path_join X dir (Some filename) of
                Inl e \<Rightarrow> (Inl e, w)
              | Inr dest \<Rightarrow>
                  (Inr (), writeFileSync X dest source (mkdirp_sync X (path_dirname X dest) w))))"

text \<open>
  One \<^verbatim>\<open>codegen\<close> hook running: its calls to the callback, in order. An exception of
  the callback leaves the hook and the loop over the extensions (line 190).
\<close>

fun codegen_calls ::
  "('p, 'sf, 'cb, 'w, 'r, 'j) environment \<Rightarrow> string \<Rightarrow> compiler_options \<Rightarrow> ('p, 'sf) extension
     \<Rightarrow> (string \<times> string) list \<Rightarrow> 'w \<Rightarrow> (abort + unit) \<times> 'w" where
  "codegen_calls X basePath options ext [] w = (Inr (), w)"
| "codegen_calls X basePath options ext ((filename, source) # rest) w =
     (case codegen_writeFile X basePath options ext filename source w of
        (Inl e, w1) \<Rightarrow> (Inl e, w1)
      | (Inr u, w1) \<Rightarrow> codegen_calls X basePath options ext rest w1)"

fun codegen_forEach ::
  "('p, 'sf, 'cb, 'w, 'r, 'j) environment \<Rightarrow> string \<Rightarrow> compiler_options
     \<Rightarrow> ('p, 'sf) extension list \<Rightarrow> 'w \<Rightarrow> (abort + unit) \<times> 'w" where
  "codegen_forEach X basePath options [] w = (Inr (), w)"
| "codegen_forEach X basePath options (ext # rest) w =
     (case codegen_calls X basePath options ext (the (codegen ext)) w of
        (Inl e, w1) \<Rightarrow> (Inl e, w1)
      | (Inr u, w1) \<Rightarrow> codegen_forEach X basePath options rest w1)"

text \<open>\<^verbatim>\<open>isCompilationTarget\<close> (lines 184-188).\<close>

definition isCompilationTarget :: "'sf \<Rightarrow> bool" where
  "isCompilationTarget sf = True"

text \<open>
  The engine's calls to the host while it builds the program, answered in order. An
  exception of the host ends the construction.
\<close>

fun serve_requests ::
  "('sf, 'cb, 'w, 'r) ts_engine \<Rightarrow> ('p, 'sf, 'cb, 'w, 'r) ExtCompilerHost \<Rightarrow> 'cb host_request list
     \<Rightarrow> (abort + 'sf host_answer list) \<times> ('p, 'sf, 'cb, 'w, 'r) ExtCompilerHost" where
  "serve_requests E h [] = (Inr [], h)"
| "serve_requests E h (GetSourceFile fileName languageVersion onError # rest) =
     (case ExtCompilerHost_getSourceFile E h fileName languageVersion onError of
        (Inl e, h1) \<Rightarrow> (Inl e, h1)
      | (Inr sourceFile, h1) \<Rightarrow>
          (case serve_requests E h1 rest of
             (Inl e, h2) \<Rightarrow> (Inl e, h2)
           | (Inr answers, h2) \<Rightarrow> (Inr (SourceFileAnswer sourceFile # answers), h2)))"
| "serve_requests E h (ResolveModuleNames moduleNames containingFile # rest) =
     (case ExtCompilerHost_resolveModuleNames E h moduleNames containingFile of
        (resolved, h1) \<Rightarrow>
          (case serve_requests E h1 rest of
             (Inl e, h2) \<Rightarrow> (Inl e, h2)
           | (Inr answers, h2) \<Rightarrow> (Inr (ModulesAnswer resolved # answers), h2)))"

text \<open>The loop of lines 206-210 on the \<^verbatim>\<open>diagnostics\<close> array of \<^verbatim>\<open>main\<close>.\<close>

fun preEmit_loop ::
  "('p, 'sf, 'cb, 'w, 'r, 'j) environment \<Rightarrow> 'p \<Rightarrow> 'sf list \<Rightarrow> diagnostic list \<Rightarrow> diagnostic list" where
  "preEmit_loop X program [] diagnostics = diagnostics"
| "preEmit_loop X program (sf # rest) diagnostics =
     (if isCompilationTarget sf
      then preEmit_loop X program rest (diagnostics @ getPreEmitDiagnostics X program (Some sf))
      else preEmit_loop X program rest diagnostics)"

text \<open>Line 217: the \<^verbatim>\<open>check\<close> hooks in order; one that ends the run ends the loop.\<close>

fun check_forEach :: "('p, 'sf) extension list \<Rightarrow> abort + unit" where
  "check_forEach [] = Inr ()"
| "check_forEach (ext # rest) =
     (case the (check_hook ext) of Inl e \<Rightarrow> Inl e | Inr u \<Rightarrow> check_forEach rest)"

text \<open>The writes of one \<^verbatim>\<open>program.emit(sf)\<close>, each through the host's \<^verbatim>\<open>writeFile\<close>.\<close>

fun host_writes ::
  "('p, 'sf, 'cb, 'w, 'r) ExtCompilerHost \<Rightarrow> (string \<times> string \<times> bool \<times> 'cb option) list
     \<Rightarrow> 'w \<Rightarrow> 'w" where
  "host_writes h [] w = w"
| "host_writes h ((fileName, content, writeByteOrderMark, onError) # rest) w =
     host_writes h rest (ExtCompilerHost_writeFile h fileName content writeByteOrderMark onError w)"

text \<open>
  The emission loop (lines 220-226). Its state is the \<^verbatim>\<open>diagnostics\<close> array of \<^verbatim>\<open>main\<close>,
  \<^verbatim>\<open>failed\<close> and the world. Line 222 declares a \<^verbatim>\<open>diagnostics\<close> of the block, which hides
  the array of \<^verbatim>\<open>main\<close> inside the block: line 223 reads and extends the block's array
  (\<open>inner\<close>), the array of the emit result, and the array of \<^verbatim>\<open>main\<close> (\<open>diagnostics\<close>) is
  not touched.
\<close>

fun emit_loop ::
  "('p, 'sf, 'cb, 'w, 'r, 'j) environment \<Rightarrow> ('p, 'sf, 'cb, 'w, 'r) ExtCompilerHost \<Rightarrow> 'p \<Rightarrow> 'sf list
     \<Rightarrow> diagnostic list \<times> bool \<times> 'w \<Rightarrow> diagnostic list \<times> bool \<times> 'w" where
  "emit_loop X h program [] (diagnostics, failed, w) = (diagnostics, failed, w)"
| "emit_loop X h program (sf # rest) (diagnostics, failed, w) =
     (if isCompilationTarget sf then
        (let result = emit X program sf;
             w1 = host_writes h (emit_writes X program sf) w;
             inner = emit_diagnostics result;
             inner1 = inner @ inner
         in emit_loop X h program rest (diagnostics, failed \<or> emitSkipped result, w1))
      else emit_loop X h program rest (diagnostics, failed, w))"

text \<open>
  Sequencing in \<^verbatim>\<open>main\<close>: a step that does not return ends the run in the world \<open>w\<close> it
  was reached in; otherwise the run goes on with the rest.
\<close>

definition and_then :: "abort + unit \<Rightarrow> 'w \<Rightarrow> (abort + nat) \<times> 'w \<Rightarrow> (abort + nat) \<times> 'w" where
  "and_then step w rest = (case step of Inl a \<Rightarrow> (Inl a, w) | Inr u \<Rightarrow> rest)"

text \<open>
  \<^verbatim>\<open>main\<close> (lines 156-229), from the world \<open>w\<close>: how the run ends, the value returned or
  the abort, and the world it leaves. \<open>self\<close> is the host object that line 177 makes, as
  a receiver. \<^verbatim>\<open>basePath\<close> is optional (\<^verbatim>\<open>basePath || project\<close>).
  A descriptor that is \<^verbatim>\<open>undefined\<close> makes \<^verbatim>\<open>config.extensions\<close> raise. The unused
  \<^verbatim>\<open>extensionsCfg\<close> of line 168 is left out.
\<close>

definition main ::
  "('sf, 'cb, 'w, 'r) ts_engine \<Rightarrow> ('p, 'sf, 'cb, 'w, 'r, 'j) environment \<Rightarrow> 'r \<Rightarrow> string
     \<Rightarrow> string option \<Rightarrow> 'w \<Rightarrow> (abort + nat) \<times> 'w" where
  "main E X self project basePath w =
     (let basePath1 = (if truthy basePath then the basePath else project);
          diagnostics = []
      in
      case lstat_isDirectory X project of
        None \<Rightarrow> (Inl FsError, w)
      | Some isDirectory \<Rightarrow>
      let project1 = (if isDirectory then join_paths X project ''tsconfig.json'' else project);
          config = fst (readConfigFile X project1);
          error = snd (readConfigFile X project1)
      in
      and_then (check (Some [error])) w
      (case config of
         None \<Rightarrow> (Inl TypeError, w)
       | Some cfg \<Rightarrow>
      let extensions = load X (cfg_extensions cfg);
          parsed = parseJsonConfigFileContent X (cfg_rest cfg) basePath1
      in
      and_then (check (engine_list (parsed_errors parsed))) w
      (let delegateHost = createCompilerHost X (parsed_options parsed) True;
           compilerHost = new_ExtCompilerHost self delegateHost (parsed_options parsed)
             extensions;
           created = serve_requests E compilerHost
             (createProgram_requests X (parsed_fileNames parsed) (parsed_options parsed))
       in
       case fst created of
         Inl a \<Rightarrow> (Inl a, w)
       | Inr answers \<Rightarrow>
       let program = createProgram X (parsed_fileNames parsed) (parsed_options parsed) answers;
           compilerHost1 = (snd created)\<lparr>host_program := Some program\<rparr>
       in
       and_then (check (engine_list (getOptionsDiagnostics X program))) w
       (let generated = codegen_forEach X basePath1 (parsed_options parsed)
              (filter (enabled Codegen) extensions) w;
            w1 = snd generated
        in
        and_then (fst generated) w1
        (and_then (check (engine_list (getGlobalDiagnostics X program))) w1
        (let diagnostics1 = preEmit_loop X program (getSourceFiles X program) diagnostics
         in
         and_then (check (engine_list diagnostics1)) w1
         (and_then (check (engine_list (host_diagnostics compilerHost1))) w1
         (and_then (check (engine_list (getPreEmitDiagnostics X program None))) w1
         (and_then (check_forEach (filter (enabled Check) extensions)) w1
         (let emitted = emit_loop X compilerHost1 program (getSourceFiles X program)
                (diagnostics1, False, w1);
              diagnostics2 = fst emitted;
              failed = fst (snd emitted);
              w2 = snd (snd emitted)
          in
          and_then (check (engine_list diagnostics2)) w2
            (Inr (if failed then 1 else 0), w2)))))))))))"

text \<open>
  The entry point (lines 232-240): the exit code of the process for a run of \<^verbatim>\<open>main\<close>.
  An exception that leaves \<^verbatim>\<open>main\<close> is caught and reported, with exit code 1.
\<close>

definition exit_code :: "abort + nat \<Rightarrow> nat" where
  "exit_code r =
     (case r of Inr n \<Rightarrow> n | Inl (ProcessExit c text) \<Rightarrow> c | Inl TypeError \<Rightarrow> 1 | Inl FsError \<Rightarrow> 1)"

section \<open>Example values\<close>

text \<open>A pending list that holds one diagnostic, of category \<^verbatim>\<open>Warning\<close>.\<close>

definition warning_only :: "diagnostic list" where
  "warning_only =
     [\<lparr>diag_category = Warning, diag_file = None, diag_messageText = ''unused''\<rparr>]"

text \<open>
  An engine whose parsed source file is the tuple of the arguments it was made from,
  and which resolves two specifiers to the same path and no other specifier. A
  receiver of the examples is the value of its \<^verbatim>\<open>prefix\<close> field, \<open>None\<close> for an object
  without the field.
\<close>

type_synonym example_source = "string \<times> string \<times> nat \<times> bool"

type_synonym example_receiver = "string option"

definition example_resolution :: "string \<Rightarrow> resolved_module option" where
  "example_resolution moduleName =
     (if moduleName = ''./util'' \<or> moduleName = ''../src/util''
      then Some \<lparr>resolvedFileName = ''/src/util.ts'', isExternalLibraryImport = False\<rparr>
      else None)"

text \<open>The world of the examples is the list of the writes made so far.\<close>

datatype fs_event =
    Mkdirp string
  | WriteFileSync string string
  | HostWrite string string bool
  | Trace string

definition example_engine ::
  "(example_source, unit, fs_event list, example_receiver) ts_engine" where
  "example_engine =
     \<lparr> createSourceFile = (\<lambda>fileName text languageVersion setParentNodes.
         (fileName, text, languageVersion, setParentNodes)),
       resolveModuleName = (\<lambda>moduleName containingFile options host.
         example_resolution moduleName) \<rparr>"

text \<open>
  A base host as \<^verbatim>\<open>ts.createCompilerHost(options, setParentNodes)\<close> makes it, over a file
  system in which every file but \<^verbatim>\<open>missing.ts\<close> holds the text \<^verbatim>\<open>let a\<close>. Its members
  do not read their receiver.
\<close>

definition example_host ::
  "bool \<Rightarrow> (example_source, unit, fs_event list, example_receiver) compiler_host" where
  "example_host setParentNodes =
     \<lparr> receiver = None,
       getSourceFile = (\<lambda>this fileName languageVersion onError.
         if fileName = ''missing.ts'' then None
         else Some (fileName, ''let a'', languageVersion, setParentNodes)),
       getCancellationToken = Some (\<lambda>this u. Inr 0),
       getDefaultLibFileName = (\<lambda>this options. ''lib.d.ts''),
       getDefaultLibLocation = Some (\<lambda>this u. Inr ''/lib''),
       writeFile = (\<lambda>this fileName content writeByteOrderMark onError w.
         w @ [HostWrite fileName content writeByteOrderMark]),
       getCurrentDirectory = (\<lambda>this u. ''/''),
       getCanonicalFileName = (\<lambda>this fileName. fileName),
       useCaseSensitiveFileNames = (\<lambda>this u. True),
       getNewLine = (\<lambda>this u. [CHR 0x0A]),
       resolveModuleNames = Some (\<lambda>this moduleNames containingFile. Inr []),
       fileExists = (\<lambda>this fileName. fileName \<noteq> ''missing.ts''),
       readFile = (\<lambda>this fileName. if fileName = ''missing.ts'' then None else Some ''let a''),
       trace = Some (\<lambda>this s w. (Inr (), w @ [Trace s])),
       directoryExists = Some (\<lambda>this directoryName. Inr True) \<rparr>"

text \<open>
  A base host written as an object with a field: its \<^verbatim>\<open>writeFile\<close> writes under
  \<^verbatim>\<open>this.prefix\<close>, as string concatenation gives the path (the text \<^verbatim>\<open>undefined\<close> for an
  object without the field). It has none of the optional members.
\<close>

definition prefix_host ::
  "(example_source, unit, fs_event list, example_receiver) compiler_host" where
  "prefix_host =
     (example_host True)
       \<lparr> receiver := Some ''out/'',
         writeFile := (\<lambda>this fileName content writeByteOrderMark onError w.
           w @ [HostWrite ((case this of None \<Rightarrow> ''undefined'' | Some prefix \<Rightarrow> prefix) @ fileName)
                  content writeByteOrderMark]),
         getCancellationToken := None,
         getDefaultLibLocation := None,
         resolveModuleNames := None,
         trace := None,
         directoryExists := None \<rparr>"

definition example_ExtCompilerHost ::
  "bool \<Rightarrow> (nat, example_source) extension list
     \<Rightarrow> (nat, example_source, unit, fs_event list, example_receiver) ExtCompilerHost" where
  "example_ExtCompilerHost setParentNodes extensions =
     new_ExtCompilerHost None (example_host setParentNodes) \<lparr>options_outDir = None\<rparr>
       extensions"

text \<open>
  An extension that returns the marker as the content, with one diagnostic that names
  the marker, and whose \<^verbatim>\<open>postProcess\<close> appends the marker.
\<close>

definition marker_diagnostic :: "string \<Rightarrow> diagnostic" where
  "marker_diagnostic m = \<lparr>diag_category = Message, diag_file = None, diag_messageText = m\<rparr>"

definition marker_extension :: "string \<Rightarrow> (nat, example_source) extension" where
  "marker_extension m =
     \<lparr> ext_options = \<lparr>genDir = None\<rparr>,
       preProcess = Some (\<lambda>program sourceFile.
         \<lparr>result_content = m, result_diagnostics = [marker_diagnostic m]\<rparr>),
       postProcess = Some (\<lambda>fileName content. content @ m),
       codegen = None,
       check_hook = None,
       ext_name = m,
       ext_loadPath = [] \<rparr>"

text \<open>
  An extension whose \<^verbatim>\<open>preProcess\<close> reports an error when the program it receives is
  \<^verbatim>\<open>undefined\<close>, and the loader that knows it under the name \<^verbatim>\<open>probe\<close>.
\<close>

definition probe_extension :: "(nat, example_source) extension" where
  "probe_extension =
     \<lparr> ext_options = \<lparr>genDir = None\<rparr>,
       preProcess = Some (\<lambda>program sourceFile.
         \<lparr> result_content = ''let a'',
           result_diagnostics =
             (case program of
                None \<Rightarrow> [\<lparr>diag_category = Error, diag_file = None,
                          diag_messageText = ''program is undefined''\<rparr>]
              | Some p \<Rightarrow> []) \<rparr>),
       postProcess = None,
       codegen = None,
       check_hook = None,
       ext_name = [],
       ext_loadPath = [] \<rparr>"

definition probe_module ::
  "string \<Rightarrow> (nat \<times> (nat, example_source) extension \<times> string) option" where
  "probe_module extension =
     (if extension = ''probe'' then Some (1, probe_extension, ''/node_modules/probe'') else None)"

definition no_modules ::
  "string \<Rightarrow> (nat \<times> (nat, example_source) extension \<times> string) option" where
  "no_modules extension = None"

text \<open>An extension that generates one file, with the given \<^verbatim>\<open>genDir\<close>.\<close>

definition codegen_extension :: "string option \<Rightarrow> (nat, example_source) extension" where
  "codegen_extension dir =
     \<lparr> ext_options = \<lparr>genDir = dir\<rparr>,
       preProcess = None,
       postProcess = None,
       codegen = Some [(''gen.ts'', ''let g'')],
       check_hook = None,
       ext_name = ''gen'',
       ext_loadPath = [] \<rparr>"

text \<open>Two results of \<^verbatim>\<open>program.emit\<close>: one with an error and nothing skipped, one clean.\<close>

definition emit_with_diagnostic :: emit_result where
  "emit_with_diagnostic =
     \<lparr> emit_diagnostics =
         [\<lparr>diag_category = Error, diag_file = None, diag_messageText = ''cannot emit''\<rparr>],
       emitSkipped = False \<rparr>"

definition clean_emit :: emit_result where
  "clean_emit = \<lparr>emit_diagnostics = [], emitSkipped = False\<rparr>"

text \<open>
  A run over a project directory with one root file \<^verbatim>\<open>a.ts\<close>, no output directory in the
  options, and no diagnostic before emission. The engine asks the host for every root
  file while it builds the program, and emits one artifact for the file. The loader,
  the \<^verbatim>\<open>extensions\<close> block of the descriptor and the result of the emission are
  given.
\<close>

definition example_environment ::
  "(string \<Rightarrow> (nat \<times> (nat, example_source) extension \<times> string) option)
     \<Rightarrow> (string \<times> ext_options) list option \<Rightarrow> emit_result
     \<Rightarrow> (nat, example_source, unit, fs_event list, example_receiver, unit) environment" where
  "example_environment modules block emitted =
     \<lparr> lstat_isDirectory = (\<lambda>p. Some True),
       join_paths = (\<lambda>a b. a @ ''/'' @ b),
       path_dirname = (\<lambda>p. rev (tl (dropWhile (\<lambda>c. c \<noteq> CHR ''/'') (rev p)))),
       mkdirp_sync = (\<lambda>dir w. w @ [Mkdirp dir]),
       writeFileSync = (\<lambda>p text w. w @ [WriteFileSync p text]),
       load_module = modules,
       readConfigFile = (\<lambda>p. (Some \<lparr>cfg_extensions = block, cfg_rest = ()\<rparr>, None)),
       parseJsonConfigFileContent = (\<lambda>j basePath.
         \<lparr>parsed_options = \<lparr>options_outDir = None\<rparr>, parsed_fileNames = [''a.ts''],
          parsed_errors = []\<rparr>),
       createCompilerHost = (\<lambda>options setParentNodes. example_host setParentNodes),
       createProgram_requests = (\<lambda>fileNames options.
         map (\<lambda>fileName. GetSourceFile fileName 1 None) fileNames),
       createProgram = (\<lambda>fileNames options answers. 7),
       getOptionsDiagnostics = (\<lambda>p. []),
       getGlobalDiagnostics = (\<lambda>p. []),
       getSourceFiles = (\<lambda>p. [(''a.ts'', ''let a'', 1, True)]),
       getPreEmitDiagnostics = (\<lambda>p sf. []),
       emit = (\<lambda>p sf. emitted),
       emit_writes = (\<lambda>p sf. [(''a.js'', ''var a'', False, None)]) \<rparr>"

section \<open>Properties of the abort check\<close>

text \<open>An anchored diagnostic is reported with its position counted from one.\<close>

lemma format_diagnostic_anchored:
  "format_diagnostic
     (Some \<lparr> diag_category = Error,
             diag_file = Some \<lparr>file_fileName = ''a.ts'', file_line = 11, file_character = 0\<rparr>,
             diag_messageText = ''no'' \<rparr>)
     = Inr ''Error at a.ts:12:1: no''"
  by (simp add: digit_def)

text \<open>A step of \<^verbatim>\<open>main\<close> that does not return ends the run; one that returns lets it go on.\<close>

lemma and_then_abort: "aborts step \<Longrightarrow> aborts (fst (and_then step w rest))"
  by (cases step) (simp_all add: and_then_def aborts_def)

lemma and_then_pass: "\<not> aborts step \<Longrightarrow> and_then step w rest = rest"
  by (cases step) (simp_all add: and_then_def aborts_def)

lemma check_None: "\<not> aborts (check None)"
  by (simp add: check_def aborts_def)

lemma check_empty: "\<not> aborts (check (Some []))"
  by (simp add: check_def aborts_def)

lemma check_first_absent: "\<not> aborts (check (Some (None # later)))"
  by (simp add: check_def aborts_def)

lemma check_first_present: "aborts (check (Some (Some d # later)))"
  by (simp add: check_def aborts_def split: sum.splits)

text \<open>
  Claim C9. For every list passed to \<^verbatim>\<open>check\<close>, the run aborts if and only if the list
  is not null, not empty, and its first entry is not null. A null list and an empty
  list never abort, and a list whose first entry is absent never aborts, whatever
  the later entries are.
\<close>

theorem check_aborts_iff:
  "aborts (check diagnostics) = (\<exists>d rest. diagnostics = Some (Some d # rest))
   \<and> \<not> aborts (check None)
   \<and> \<not> aborts (check (Some []))
   \<and> \<not> aborts (check (Some (None # later)))"
proof -
  have "aborts (check diagnostics) = (\<exists>d rest. diagnostics = Some (Some d # rest))"
  proof (cases diagnostics)
    case None
    then show ?thesis using check_None by simp
  next
    case (Some ds)
    show ?thesis
    proof (cases ds)
      case Nil
      then show ?thesis using Some check_empty by simp
    next
      case (Cons first rest)
      then show ?thesis
        using Some check_first_absent check_first_present by (cases first) simp_all
    qed
  qed
  then show ?thesis
    using check_None check_empty check_first_absent by simp
qed

text \<open>
  Claim C5, as stated, fails: a pending list that holds only a warning, hence no
  diagnostic of fatal severity, aborts the run; \<^verbatim>\<open>check\<close> never reads a category.
\<close>

theorem check_warning_aborts:
  "\<not> contains_fatal warning_only
   \<and> aborts (check (engine_list warning_only))
   \<and> check (engine_list warning_only) = Inl (ProcessExit 1 ''FATAL Warning unused'')"
  by (simp add: warning_only_def contains_fatal_def check_def engine_list_def
      formatDiagnostics_def aborts_def)

text \<open>
  Claim C5, amended. A diagnostic-validation step of the orchestrator aborts the run
  if and only if its pending list is not empty, whatever the severities in it: for a
  list of the engine that is that the list holds a diagnostic, and for the one-entry
  list of the descriptor's error that the error is present.
\<close>

theorem check_aborts_on_pending:
  "aborts (check (engine_list ds)) = (ds \<noteq> [])
   \<and> aborts (check (Some [error])) = (error \<noteq> None)"
proof -
  have "aborts (check (engine_list ds)) = (ds \<noteq> [])"
    using check_empty check_first_present by (cases ds) (simp_all add: engine_list_def)
  moreover have "aborts (check (Some [error])) = (error \<noteq> None)"
    using check_first_absent check_first_present by (cases error) simp_all
  ultimately show ?thesis by simp
qed

section \<open>Properties of the hosts\<close>

text \<open>
  For every base host, each of the thirteen arrow members of the Delegating Host,
  called on any receiver, gives what the same call on the base host gives; for an
  optional member that the base host lacks, both calls raise.
\<close>

lemma DelegatingHost_forwards:
  "getSourceFile (DelegatingHost self d) this fileName languageVersion onError
     = getSourceFile d (receiver d) fileName languageVersion onError
   \<and> fileExists (DelegatingHost self d) this fileName = fileExists d (receiver d) fileName
   \<and> readFile (DelegatingHost self d) this fileName = readFile d (receiver d) fileName
   \<and> getDefaultLibFileName (DelegatingHost self d) this options
       = getDefaultLibFileName d (receiver d) options
   \<and> getCurrentDirectory (DelegatingHost self d) this u = getCurrentDirectory d (receiver d) u
   \<and> getCanonicalFileName (DelegatingHost self d) this fileName
       = getCanonicalFileName d (receiver d) fileName
   \<and> useCaseSensitiveFileNames (DelegatingHost self d) this u
       = useCaseSensitiveFileNames d (receiver d) u
   \<and> getNewLine (DelegatingHost self d) this u = getNewLine d (receiver d) u
   \<and> call_directoryExists (DelegatingHost self d) directoryName
       = call_directoryExists d directoryName
   \<and> call_getDefaultLibLocation (DelegatingHost self d) u = call_getDefaultLibLocation d u
   \<and> call_getCancellationToken (DelegatingHost self d) u = call_getCancellationToken d u
   \<and> call_trace (DelegatingHost self d) s w = call_trace d s w
   \<and> call_resolveModuleNames (DelegatingHost self d) moduleNames containingFile
       = call_resolveModuleNames d moduleNames containingFile"
  by (simp add: DelegatingHost_def call_directoryExists_def call_getDefaultLibLocation_def
      call_getCancellationToken_def call_trace_def call_resolveModuleNames_def)

text \<open>
  Output writing on the wrapper runs the base host's function with the wrapper as the
  receiver; it is the base host's own write exactly when that function gives the same
  for both receivers.
\<close>

lemma DelegatingHost_writeFile:
  "writeFile (DelegatingHost self d) (receiver (DelegatingHost self d))
       fileName content writeByteOrderMark onError w
     = writeFile d self fileName content writeByteOrderMark onError w"
  by (simp add: DelegatingHost_def)

text \<open>The wrapper has every optional member, whatever the base host has.\<close>

lemma DelegatingHost_optional_members:
  "getCancellationToken (DelegatingHost self d) \<noteq> None
   \<and> getDefaultLibLocation (DelegatingHost self d) \<noteq> None
   \<and> resolveModuleNames (DelegatingHost self d) \<noteq> None
   \<and> trace (DelegatingHost self d) \<noteq> None
   \<and> directoryExists (DelegatingHost self d) \<noteq> None"
  by (simp add: DelegatingHost_def)

text \<open>
  Claim C8 at a failing input: a base host whose \<^verbatim>\<open>writeFile\<close> writes under its own
  \<^verbatim>\<open>prefix\<close> field, wrapped by an object without the field. Called on the base host the
  write goes to \<^verbatim>\<open>out/a.js\<close>; called on the Delegating Host the same function reads the
  wrapper as \<^verbatim>\<open>this\<close> and the write goes to \<^verbatim>\<open>undefineda.js\<close>. The base host has no
  \<^verbatim>\<open>resolveModuleNames\<close>; the wrapper has one.
\<close>

theorem DelegatingHost_writeFile_receiver:
  "writeFile prefix_host (receiver prefix_host) ''a.js'' ''var a'' False None []
     = [HostWrite ''out/a.js'' ''var a'' False]
   \<and> writeFile (DelegatingHost None prefix_host) (receiver (DelegatingHost None prefix_host))
       ''a.js'' ''var a'' False None []
     = [HostWrite ''undefineda.js'' ''var a'' False]
   \<and> resolveModuleNames prefix_host = None
   \<and> resolveModuleNames (DelegatingHost None prefix_host) \<noteq> None"
  by (simp add: DelegatingHost_def prefix_host_def example_host_def)

lemma postProcess_forEach_fold:
  "postProcess_forEach fileName exts content
     = fold (\<lambda>ext c. the (postProcess ext) fileName c) exts content"
  by (induction exts arbitrary: content) simp_all

text \<open>
  Claim C4. For every output-write call the content goes left to right through every
  extension that provides \<^verbatim>\<open>postProcess\<close>, each call taking the output of the call
  before it (\<open>fold\<close> over the enabled extensions in their order), and the base host's
  write, called on the base host, receives that final content with the same path, the
  same byte-order-mark flag and the same error callback.
\<close>

theorem writeFile_postProcess_chain:
  "ExtCompilerHost_writeFile h fileName content writeByteOrderMark onError w
     = writeFile (host_delegate h) (receiver (host_delegate h)) fileName
         (fold (\<lambda>ext c. the (postProcess ext) fileName c)
            (filter (enabled PostProcess) (host_extensions h)) content)
         writeByteOrderMark onError w"
  by (simp add: ExtCompilerHost_writeFile_def postProcess_forEach_fold)

text \<open>
  Three extensions, the second without \<^verbatim>\<open>postProcess\<close>: the base host writes the content
  with the marker of the first and then the marker of the third.
\<close>

theorem writeFile_postProcess_chain_witness:
  "ExtCompilerHost_writeFile
     (example_ExtCompilerHost True [marker_extension ''A'', probe_extension, marker_extension ''B''])
     ''a.js'' ''var a'' True None []
     = [HostWrite ''a.js'' ''var aAB'' True]"
  using writeFile_postProcess_chain [where h = "example_ExtCompilerHost True
        [marker_extension ''A'', probe_extension, marker_extension ''B'']"
      and fileName = "''a.js''" and content = "''var a''" and writeByteOrderMark = True
      and onError = None and w = "[]"]
  by (simp add: example_ExtCompilerHost_def new_ExtCompilerHost_def marker_extension_def
      probe_extension_def example_host_def)

text \<open>A declaration file is a file whose name ends in \<^verbatim>\<open>.d.ts\<close>.\<close>

lemma isDefinitions_iff: "isDefinitions fileName = (\<exists>stem. fileName = stem @ ''.d.ts'')"
proof
  assume "isDefinitions fileName"
  then have "fileName = take (length fileName - 5) fileName @ ''.d.ts''"
    using append_take_drop_id [of "length fileName - 5" fileName]
    by (simp add: isDefinitions_def)
  then show "\<exists>stem. fileName = stem @ ''.d.ts''" ..
next
  assume "\<exists>stem. fileName = stem @ ''.d.ts''"
  then show "isDefinitions fileName"
    by (auto simp: isDefinitions_def)
qed

lemma preProcess_forEach_eq:
  "preProcess_forEach program sourceFile exts (content, diagnostics) =
     (if exts = [] then content
      else Some (result_content (the (preProcess (last exts)) program sourceFile)),
      diagnostics
        @ concat (map (\<lambda>ext. result_diagnostics (the (preProcess ext) program sourceFile)) exts))"
  by (induction exts arbitrary: content diagnostics) (simp_all add: Let_def)

text \<open>\<^verbatim>\<open>this.readFile\<close> of the instance is the delegate's \<^verbatim>\<open>readFile\<close>, called on the delegate.\<close>

lemma inherited_readFile:
  "readFile (inherited h) (host_self h) fileName
     = readFile (host_delegate h) (receiver (host_delegate h)) fileName"
  by (simp add: inherited_def DelegatingHost_def)

text \<open>
  Claim C2. For source retrieval on a unit that is not a declaration file, with at
  least one extension that provides \<^verbatim>\<open>preProcess\<close>: the diagnostics of every such
  extension, in order, are appended to the host's accumulator, and the content that is
  parsed again is the content the last of them returned; what the others returned as
  content is dropped. Every hook receives the host's program field and the base host's
  source file.
\<close>

theorem getSourceFile_preProcess:
  fixes h :: "('p, 'sf, 'cb, 'w, 'r) ExtCompilerHost"
  defines "capable \<equiv> filter (enabled PreProcess) (host_extensions h)"
  assumes "\<not> isDefinitions fileName" and "capable \<noteq> []"
  shows "ExtCompilerHost_getSourceFile E h fileName languageVersion onError =
     (Inr (Some (createSourceFile E fileName
        (result_content (the (preProcess (last capable)) (host_program h)
           (getSourceFile (host_delegate h) (receiver (host_delegate h))
              fileName languageVersion onError)))
        languageVersion True)),
      h\<lparr>host_diagnostics := host_diagnostics h
         @ concat (map (\<lambda>ext. result_diagnostics (the (preProcess ext) (host_program h)
             (getSourceFile (host_delegate h) (receiver (host_delegate h))
                fileName languageVersion onError))) capable)\<rparr>)"
  using assms
  by (simp add: ExtCompilerHost_getSourceFile_def preProcess_forEach_eq
      ts_createSourceFile_def Let_def)

text \<open>
  Two extensions, with markers \<^verbatim>\<open>A\<close> and \<^verbatim>\<open>B\<close>: the unit is parsed from \<^verbatim>\<open>B\<close> and the
  accumulator holds the diagnostics of both.
\<close>

theorem getSourceFile_preProcess_witness:
  "\<not> isDefinitions ''a.ts''
   \<and> filter (enabled PreProcess)
        (host_extensions
           (example_ExtCompilerHost True [marker_extension ''A'', marker_extension ''B''])) \<noteq> []
   \<and> ExtCompilerHost_getSourceFile example_engine
        (example_ExtCompilerHost True [marker_extension ''A'', marker_extension ''B''])
        ''a.ts'' 1 None
      = (Inr (Some (''a.ts'', ''B'', 1, True)),
         (example_ExtCompilerHost True [marker_extension ''A'', marker_extension ''B''])
           \<lparr>host_diagnostics := [marker_diagnostic ''A'', marker_diagnostic ''B'']\<rparr>)"
  using getSourceFile_preProcess [where fileName = "''a.ts''"
      and h = "example_ExtCompilerHost True [marker_extension ''A'', marker_extension ''B'']"
      and E = example_engine and languageVersion = 1 and onError = None]
  by (simp add: isDefinitions_def example_ExtCompilerHost_def new_ExtCompilerHost_def
      marker_extension_def example_engine_def example_host_def)

text \<open>
  Claim C7, as stated, fails for source retrieval: over a base host that parses
  without parent nodes, the host with no extension returns another source file than
  the base host for the same readable file and language version.
\<close>

theorem no_extension_source_differs:
  "host_extensions (example_ExtCompilerHost False []) = []
   \<and> fst (ExtCompilerHost_getSourceFile example_engine (example_ExtCompilerHost False [])
          ''a.ts'' 1 None)
      = Inr (Some (''a.ts'', ''let a'', 1, True))
   \<and> getSourceFile (example_host False) (receiver (example_host False)) ''a.ts'' 1 None
      = Some (''a.ts'', ''let a'', 1, False)
   \<and> fst (ExtCompilerHost_getSourceFile example_engine (example_ExtCompilerHost False [])
          ''a.ts'' 1 None)
      \<noteq> Inr (getSourceFile (example_host False) (receiver (example_host False)) ''a.ts'' 1 None)"
  by (simp add: ExtCompilerHost_getSourceFile_def isDefinitions_def example_ExtCompilerHost_def
      new_ExtCompilerHost_def example_engine_def example_host_def inherited_def
      DelegatingHost_def ts_createSourceFile_def Let_def)

text \<open>
  Claim C7, amended. A host with an empty extension list writes output exactly as its
  base host does, for every path, content, byte-order-mark flag and error callback,
  and returns the base host's source file for every declaration file. For any other
  file whose text the base host's \<^verbatim>\<open>readFile\<close> gives, it returns the engine's parse,
  with parent nodes, of that text; that is the base host's result wherever the base
  host's own source file is that parse. In each of these cases the host itself is not
  changed. Nothing is said of a file that \<^verbatim>\<open>readFile\<close> cannot read.
\<close>

theorem no_extension_fidelity:
  assumes "host_extensions h = []"
  shows "ExtCompilerHost_writeFile h fileName content writeByteOrderMark onError w
       = writeFile (host_delegate h) (receiver (host_delegate h))
           fileName content writeByteOrderMark onError w
     \<and> (isDefinitions fileName \<longrightarrow>
          ExtCompilerHost_getSourceFile E h fileName languageVersion onError
            = (Inr (getSourceFile (host_delegate h) (receiver (host_delegate h))
                 fileName languageVersion onError), h))
     \<and> (\<not> isDefinitions fileName
          \<and> readFile (host_delegate h) (receiver (host_delegate h)) fileName = Some sourceText \<longrightarrow>
          ExtCompilerHost_getSourceFile E h fileName languageVersion onError
            = (Inr (Some (createSourceFile E fileName sourceText languageVersion True)), h))
     \<and> (readFile (host_delegate h) (receiver (host_delegate h)) fileName = Some sourceText
          \<and> getSourceFile (host_delegate h) (receiver (host_delegate h))
               fileName languageVersion onError
             = Some (createSourceFile E fileName sourceText languageVersion True) \<longrightarrow>
          ExtCompilerHost_getSourceFile E h fileName languageVersion onError
            = (Inr (getSourceFile (host_delegate h) (receiver (host_delegate h))
                 fileName languageVersion onError), h))"
  using assms
  by (simp add: ExtCompilerHost_writeFile_def ExtCompilerHost_getSourceFile_def
      inherited_readFile ts_createSourceFile_def Let_def)

theorem no_extension_fidelity_witness:
  "host_extensions (example_ExtCompilerHost True []) = []
   \<and> ExtCompilerHost_writeFile (example_ExtCompilerHost True []) ''a.js'' ''var a'' False None []
       = [HostWrite ''a.js'' ''var a'' False]
   \<and> isDefinitions ''lib.d.ts''
   \<and> ExtCompilerHost_getSourceFile example_engine (example_ExtCompilerHost True [])
        ''lib.d.ts'' 1 None
       = (Inr (Some (''lib.d.ts'', ''let a'', 1, True)), example_ExtCompilerHost True [])
   \<and> \<not> isDefinitions ''a.ts''
   \<and> readFile (example_host True) (receiver (example_host True)) ''a.ts'' = Some ''let a''
   \<and> getSourceFile (example_host True) (receiver (example_host True)) ''a.ts'' 1 None
       = Some (createSourceFile example_engine ''a.ts'' ''let a'' 1 True)
   \<and> ExtCompilerHost_getSourceFile example_engine (example_ExtCompilerHost True [])
        ''a.ts'' 1 None
       = (Inr (getSourceFile (example_host True) (receiver (example_host True)) ''a.ts'' 1 None),
          example_ExtCompilerHost True [])"
  using no_extension_fidelity [where h = "example_ExtCompilerHost True []"
      and fileName = "''a.js''" and content = "''var a''" and writeByteOrderMark = False
      and onError = None and w = "[]" and E = example_engine and languageVersion = 1
      and sourceText = "''let a''"]
    no_extension_fidelity [where h = "example_ExtCompilerHost True []"
      and fileName = "''lib.d.ts''" and content = "''var a''" and writeByteOrderMark = False
      and onError = None and w = "[]" and E = example_engine and languageVersion = 1
      and sourceText = "''let a''"]
    no_extension_fidelity [where h = "example_ExtCompilerHost True []"
      and fileName = "''a.ts''" and content = "''var a''" and writeByteOrderMark = False
      and onError = None and w = "[]" and E = example_engine and languageVersion = 1
      and sourceText = "''let a''"]
  by (simp add: isDefinitions_def example_ExtCompilerHost_def new_ExtCompilerHost_def
      example_engine_def example_host_def)

text \<open>
  The case the amended claim leaves out: for a file that is not a declaration file and
  that \<^verbatim>\<open>readFile\<close> cannot read, with no extension that provides \<^verbatim>\<open>preProcess\<close>, line 125
  hands \<^verbatim>\<open>undefined\<close> to the engine, which raises, where the base host returns
  \<^verbatim>\<open>undefined\<close> for the file.
\<close>

lemma getSourceFile_unreadable:
  "\<not> isDefinitions fileName \<Longrightarrow>
   filter (enabled PreProcess) (host_extensions h) = [] \<Longrightarrow>
   readFile (host_delegate h) (receiver (host_delegate h)) fileName = None \<Longrightarrow>
   ExtCompilerHost_getSourceFile E h fileName languageVersion onError = (Inl TypeError, h)"
  by (simp add: ExtCompilerHost_getSourceFile_def inherited_readFile ts_createSourceFile_def
      Let_def)

lemma getSourceFile_missing_file:
  "ExtCompilerHost_getSourceFile example_engine (example_ExtCompilerHost True [])
     ''missing.ts'' 1 None
     = (Inl TypeError, example_ExtCompilerHost True [])
   \<and> getSourceFile (example_host True) (receiver (example_host True)) ''missing.ts'' 1 None
     = None"
  by (simp add: ExtCompilerHost_getSourceFile_def isDefinitions_def example_ExtCompilerHost_def
      new_ExtCompilerHost_def example_host_def inherited_def DelegatingHost_def
      ts_createSourceFile_def Let_def)

lemma find_snoc:
  "find P (xs @ [x])
     = (case find P xs of Some y \<Rightarrow> Some y | None \<Rightarrow> if P x then Some x else None)"
  by (induction xs) simp_all

lemma resolveModuleNames_forEach_eq:
  "resolveModuleNames_forEach E options delegate containingFile moduleNames (result, rmap) =
     (result @ List.map_filter
        (\<lambda>moduleName. resolveModuleName E moduleName containingFile options delegate) moduleNames,
      (\<lambda>path.
         case find (\<lambda>moduleName.
                case resolveModuleName E moduleName containingFile options delegate of
                  None \<Rightarrow> False
                | Some resolvedModule \<Rightarrow> resolvedFileName resolvedModule = path)
              (rev moduleNames) of
           Some moduleName \<Rightarrow> Some moduleName
         | None \<Rightarrow> rmap path))"
proof (induction moduleNames arbitrary: result rmap)
  case Nil
  then show ?case by simp
next
  case (Cons moduleName rest)
  show ?case
    by (cases "resolveModuleName E moduleName containingFile options delegate")
       (auto simp: Cons.IH find_snoc fun_eq_iff split: option.splits)
qed

lemma length_map_filter_le: "length (List.map_filter f xs) \<le> length xs"
  by (induction xs) (auto split: option.splits)

lemma length_map_filter_less:
  "(length (List.map_filter f xs) < length xs) = list_ex (\<lambda>x. f x = None) xs"
proof (induction xs)
  case Nil
  then show ?case by simp
next
  case (Cons x xs)
  show ?case
  proof (cases "f x")
    case None
    then show ?thesis using length_map_filter_le [of f xs] by simp
  next
    case (Some y)
    then show ?thesis using Cons.IH by simp
  qed
qed

text \<open>
  Claim C6. For every list of requested module names, with \<open>resolve\<close> the engine's
  resolution under the host's options and delegate: the result holds the resolved
  modules of the names that resolve, in order, and nothing for a name that does not,
  so it is never longer than the request and is strictly shorter exactly when some
  name does not resolve; and afterwards the reverse map holds, for every path, the
  last name in the request that resolved to the path, or its former entry when no
  requested name resolved to it. Nothing else of the host changes.
\<close>

theorem resolveModuleNames_drops_and_maps:
  fixes E :: "('sf, 'cb, 'w, 'r) ts_engine"
    and h :: "('p, 'sf, 'cb, 'w, 'r) ExtCompilerHost"
    and moduleNames :: "string list"
    and containingFile :: string
  defines "resolve \<equiv>
    (\<lambda>moduleName. resolveModuleName E moduleName containingFile (host_options h) (host_delegate h))"
  defines "answer \<equiv> ExtCompilerHost_resolveModuleNames E h moduleNames containingFile"
  shows "fst answer = List.map_filter resolve moduleNames
    \<and> length (fst answer) \<le> length moduleNames
    \<and> (length (fst answer) < length moduleNames)
        = list_ex (\<lambda>moduleName. resolve moduleName = None) moduleNames
    \<and> reverseMap (snd answer) path =
        (case find (\<lambda>moduleName.
                case resolve moduleName of
                  None \<Rightarrow> False
                | Some resolvedModule \<Rightarrow> resolvedFileName resolvedModule = path)
              (rev moduleNames) of
           Some moduleName \<Rightarrow> Some moduleName
         | None \<Rightarrow> reverseMap h path)
    \<and> snd answer = h\<lparr>reverseMap := reverseMap (snd answer)\<rparr>"
  unfolding answer_def resolve_def
  by (simp add: ExtCompilerHost_resolveModuleNames_def resolveModuleNames_forEach_eq
      length_map_filter_le length_map_filter_less)

text \<open>
  Two names that resolve to one path around a name that does not resolve: two modules
  for three names, and the path is mapped to the name processed last.
\<close>

theorem resolveModuleNames_witness:
  "fst (ExtCompilerHost_resolveModuleNames example_engine (example_ExtCompilerHost True [])
          [''./util'', ''missing'', ''../src/util''] ''/src/a.ts'')
     = [\<lparr>resolvedFileName = ''/src/util.ts'', isExternalLibraryImport = False\<rparr>,
        \<lparr>resolvedFileName = ''/src/util.ts'', isExternalLibraryImport = False\<rparr>]
   \<and> reverseMap (snd (ExtCompilerHost_resolveModuleNames example_engine
          (example_ExtCompilerHost True [])
          [''./util'', ''missing'', ''../src/util''] ''/src/a.ts'')) ''/src/util.ts''
     = Some ''../src/util''"
  using resolveModuleNames_drops_and_maps [where E = example_engine
      and containingFile = "''/src/a.ts''" and h = "example_ExtCompilerHost True []"
      and moduleNames = "[''./util'', ''missing'', ''../src/util'']"
      and path = "''/src/util.ts''"]
  by (simp add: example_engine_def example_resolution_def)

text \<open>
  Two identifiers of one module: \<^verbatim>\<open>load\<close> returns the one exported object twice, and both
  entries carry the bag and the name of the identifier processed last.
\<close>

lemma load_shares_object:
  "load (example_environment (\<lambda>extension. Some (1, probe_extension, ''/node_modules/probe''))
           None clean_emit)
     (Some [(''probe'', \<lparr>genDir = Some ''first''\<rparr>), (''./probe'', \<lparr>genDir = Some ''second''\<rparr>)])
     = [probe_extension\<lparr>ext_options := \<lparr>genDir = Some ''second''\<rparr>, ext_name := ''./probe'',
          ext_loadPath := ''/node_modules/probe''\<rparr>,
        probe_extension\<lparr>ext_options := \<lparr>genDir = Some ''second''\<rparr>, ext_name := ''./probe'',
          ext_loadPath := ''/node_modules/probe''\<rparr>]"
  by (simp add: load_def example_environment_def probe_extension_def Let_def)

section \<open>Properties of the orchestrator\<close>

lemma emit_loop_diagnostics:
  "fst (emit_loop X h program sfs (diagnostics, failed, w)) = diagnostics"
  by (induction sfs arbitrary: failed w) (simp_all add: Let_def)

text \<open>
  The second half of claim C1 holds: after the emission loop \<^verbatim>\<open>failed\<close> is set exactly
  when the emission of some target was skipped.
\<close>

lemma emit_loop_failed:
  "fst (snd (emit_loop X h program sfs (diagnostics, failed, w)))
     = (failed \<or> list_ex (\<lambda>sf. emitSkipped (emit X program sf)) sfs)"
  by (induction sfs arbitrary: failed w) (simp_all add: Let_def isCompilationTarget_def)

text \<open>
  The first half does not: the list that line 227 checks is the list that line 211
  checked, so the last check of \<^verbatim>\<open>main\<close> passes whenever the run reaches it, whatever the
  emissions reported.
\<close>

lemma final_check_passes:
  "\<not> aborts (check (engine_list diagnostics)) \<Longrightarrow>
     \<not> aborts (check (engine_list
          (fst (emit_loop X h program sfs (diagnostics, failed, w)))))"
  by (simp add: emit_loop_diagnostics)

text \<open>
  Claim C1 at a failing input: one target whose emission reports an error and is not
  skipped. The run does not abort; \<^verbatim>\<open>main\<close> returns 0 after the artifact was written.
\<close>

theorem main_ignores_emit_diagnostic:
  "main example_engine (example_environment no_modules None emit_with_diagnostic)
     None ''proj'' None []
     = (Inr 0, [HostWrite ''a.js'' ''var a'' False])"
  by (simp add: main_def example_environment_def no_modules_def emit_with_diagnostic_def
      example_engine_def example_host_def load_def truthy_def check_def engine_list_def
      and_then_def new_ExtCompilerHost_def ExtCompilerHost_getSourceFile_def
      ExtCompilerHost_writeFile_def isDefinitions_def inherited_def DelegatingHost_def
      ts_createSourceFile_def isCompilationTarget_def Let_def)

lemma getSourceFile_program:
  "host_program (snd (ExtCompilerHost_getSourceFile E h fileName languageVersion onError))
     = host_program h"
  by (simp add: ExtCompilerHost_getSourceFile_def Let_def split: prod.splits sum.splits)

lemma resolveModuleNames_program:
  "host_program (snd (ExtCompilerHost_resolveModuleNames E h moduleNames containingFile))
     = host_program h"
  by (simp add: ExtCompilerHost_resolveModuleNames_def split: prod.splits)

text \<open>
  No call of the engine to the host assigns the program field: while the program is
  built the field is what the constructor left, \<^verbatim>\<open>undefined\<close>.
\<close>

lemma serve_requests_program:
  "host_program (snd (serve_requests E h requests)) = host_program h"
proof (induction requests arbitrary: h)
  case Nil
  then show ?case by simp
next
  case (Cons request rest)
  show ?case
  proof (cases request)
    case (GetSourceFile fileName languageVersion onError)
    obtain answer h1 where
      step: "ExtCompilerHost_getSourceFile E h fileName languageVersion onError = (answer, h1)"
      by (cases "ExtCompilerHost_getSourceFile E h fileName languageVersion onError")
    have "host_program h1 = host_program h"
      using getSourceFile_program [of E h fileName languageVersion onError] step by simp
    moreover have "host_program (snd (serve_requests E h1 rest)) = host_program h1"
      by (rule Cons.IH)
    ultimately show ?thesis
      using GetSourceFile step by (auto split: prod.splits sum.splits)
  next
    case (ResolveModuleNames moduleNames containingFile)
    obtain resolved h1 where
      step: "ExtCompilerHost_resolveModuleNames E h moduleNames containingFile = (resolved, h1)"
      by (cases "ExtCompilerHost_resolveModuleNames E h moduleNames containingFile")
    have "host_program h1 = host_program h"
      using resolveModuleNames_program [of E h moduleNames containingFile] step by simp
    moreover have "host_program (snd (serve_requests E h1 rest)) = host_program h1"
      by (rule Cons.IH)
    ultimately show ?thesis
      using ResolveModuleNames step by (auto split: prod.splits sum.splits)
  qed
qed

text \<open>
  Claim C3 at a failing input: one root file and one extension whose \<^verbatim>\<open>preProcess\<close>
  reports whether it received a program. The hook fires while the program is built,
  before line 181 assigns the field, and receives \<^verbatim>\<open>undefined\<close>: the run aborts on the
  hook's report at line 212.
\<close>

theorem main_preProcess_before_program:
  "main example_engine
     (example_environment probe_module (Some [(''probe'', \<lparr>genDir = None\<rparr>)]) clean_emit)
     None ''proj'' None []
     = (Inl (ProcessExit 1 ''FATAL Error program is undefined''), [])"
  by (simp add: main_def example_environment_def probe_module_def probe_extension_def
      clean_emit_def formatDiagnostics_def
      example_engine_def example_host_def load_def truthy_def check_def engine_list_def
      and_then_def new_ExtCompilerHost_def ExtCompilerHost_getSourceFile_def
      ExtCompilerHost_writeFile_def isDefinitions_def inherited_def DelegatingHost_def
      ts_createSourceFile_def isCompilationTarget_def Let_def)

text \<open>
  Claim C10, as stated, fails: a configuration bag whose \<^verbatim>\<open>genDir\<close> is the empty string
  has the key, and the callback does not write under the base path joined with it. It
  raises when the options have no output directory, and writes under the output
  directory when they have one.
\<close>

theorem codegen_writeFile_empty_genDir:
  "genDir (ext_options (codegen_extension (Some []))) = Some []
   \<and> codegen_writeFile (example_environment no_modules None clean_emit) ''proj''
        \<lparr>options_outDir = None\<rparr> (codegen_extension (Some [])) ''gen.ts'' ''let g'' []
      = (Inl TypeError, [])
   \<and> codegen_writeFile (example_environment no_modules None clean_emit) ''proj''
        \<lparr>options_outDir = Some ''out''\<rparr> (codegen_extension (Some [])) ''gen.ts'' ''let g'' []
      = (Inr (), [Mkdirp ''out'', WriteFileSync ''out/gen.ts'' ''let g''])"
  by (simp add: codegen_writeFile_def path_join_def truthy_def codegen_extension_def
      example_environment_def)

text \<open>
  Claim C10, amended. When the configuration bag of the extension has no \<^verbatim>\<open>genDir\<close>, or
  an empty one, and the resolved options have no output directory, the write callback
  raises a \<^verbatim>\<open>TypeError\<close> and leaves the world as it was: no directory is made and no
  file is written. When \<^verbatim>\<open>genDir\<close> is a string that is not empty, the callback makes
  the directory of, and writes the content to, the base path joined with \<^verbatim>\<open>genDir\<close>
  joined with the given relative path, whatever the output directory of the options.
\<close>

theorem codegen_writeFile_destination:
  "(\<not> truthy (genDir (ext_options ext)) \<and> options_outDir options = None \<longrightarrow>
      codegen_writeFile X basePath options ext filename source w = (Inl TypeError, w))
   \<and> (genDir (ext_options ext) = Some dir \<and> dir \<noteq> [] \<longrightarrow>
      codegen_writeFile X basePath options ext filename source w
        = (Inr (),
           writeFileSync X (join_paths X (join_paths X basePath dir) filename) source
             (mkdirp_sync X
                (path_dirname X (join_paths X (join_paths X basePath dir) filename)) w)))"
  by (simp add: codegen_writeFile_def path_join_def truthy_def)

theorem codegen_writeFile_destination_witness:
  "(\<not> truthy (genDir (ext_options (codegen_extension None)))
     \<and> options_outDir \<lparr>options_outDir = None\<rparr> = None)
   \<and> codegen_writeFile (example_environment no_modules None clean_emit) ''proj''
        \<lparr>options_outDir = None\<rparr> (codegen_extension None) ''gen.ts'' ''let g'' []
      = (Inl TypeError, [])
   \<and> (genDir (ext_options (codegen_extension (Some ''generated''))) = Some ''generated''
     \<and> ''generated'' \<noteq> [])
   \<and> codegen_writeFile (example_environment no_modules None clean_emit) ''proj''
        \<lparr>options_outDir = Some ''out''\<rparr> (codegen_extension (Some ''generated''))
        ''gen.ts'' ''let g'' []
      = (Inr (), [Mkdirp ''proj/generated'', WriteFileSync ''proj/generated/gen.ts'' ''let g''])"
  using codegen_writeFile_destination [where ext = "codegen_extension None"
      and options = "\<lparr>options_outDir = None\<rparr>"
      and X = "example_environment no_modules None clean_emit" and basePath = "''proj''"
      and filename = "''gen.ts''" and source = "''let g''" and w = "[]"]
    codegen_writeFile_destination [where ext = "codegen_extension (Some ''generated'')"
      and dir = "''generated''"
      and options = "\<lparr>options_outDir = Some ''out''\<rparr>"
      and X = "example_environment no_modules None clean_emit" and basePath = "''proj''"
      and filename = "''gen.ts''" and source = "''let g''" and w = "[]"]
  by (simp add: codegen_extension_def truthy_def example_environment_def)

text \<open>
  The error of the callback is fatal for the run: it leaves the hook and \<^verbatim>\<open>main\<close>, and
  the process exits with code 1.
\<close>

lemma main_codegen_raises:
  "main example_engine
     (example_environment
        (\<lambda>extension. Some (2, codegen_extension None, ''/node_modules/gen''))
        (Some [(''gen'', \<lparr>genDir = None\<rparr>)]) clean_emit)
     None ''proj'' None []
     = (Inl TypeError, [])
   \<and> exit_code (Inl TypeError) = 1"
  by (simp add: main_def example_environment_def codegen_extension_def
      clean_emit_def codegen_writeFile_def path_join_def exit_code_def
      example_engine_def example_host_def load_def truthy_def check_def engine_list_def
      and_then_def new_ExtCompilerHost_def ExtCompilerHost_getSourceFile_def
      isDefinitions_def inherited_def DelegatingHost_def ts_createSourceFile_def Let_def)

end
